theory Spec2Isabelle
  imports Complex_Main
begin

section \<open>Numbers\<close>

text \<open>
  The program is JavaScript (\<^verbatim>\<open>src/js/boilerplate/mouse.js\<close>); every number in it is an
  IEEE double. The embedding takes numbers to be the reals: rounding error, \<^verbatim>\<open>NaN\<close> and
  the infinities are outside the model. Where JavaScript divides by zero (and yields an
  infinity or \<^verbatim>\<open>NaN\<close>) HOL yields \<open>0\<close>; every theorem below whose conclusion depends
  on the value of a quotient is either about a concrete state, where the divisor is 200,
  or carries hypotheses under which the divisor is positive whenever the division is
  reached.

  \<^verbatim>\<open>Math.round\<close> rounds to the nearest integer, a tie going towards plus infinity;
  \<^verbatim>\<open>Math.min\<close> is \<open>min\<close>.
\<close>

definition Math_round :: "real \<Rightarrow> real" where
  "Math_round v = of_int \<lfloor>v + 1 / 2\<rfloor>"

section \<open>Data model\<close>

text \<open>An object with the properties \<^verbatim>\<open>x\<close>, \<^verbatim>\<open>y\<close>, \<^verbatim>\<open>width\<close>, \<^verbatim>\<open>height\<close> (a Box).\<close>

record box =
  box_x :: real
  box_y :: real
  box_width :: real
  box_height :: real

text \<open>The anonymous functions bound to the canvas, named after what they do.\<close>

datatype handler =
    H_trackmove
  | H_translate_first_move
  | H_translate_enter
  | H_translate_leave
  | H_translate_down
  | H_translate_up

text \<open>
  One handler bound on \<^verbatim>\<open>$canvas\<close> by \<^verbatim>\<open>on\<close> or \<^verbatim>\<open>one\<close>: the event type, the
  namespace after the dot, whether it unbinds itself after its first run, and the function.
\<close>

record binding =
  ev_type :: string
  ev_namespace :: string
  ev_once :: bool
  ev_handler :: handler

text \<open>
  Everything the file reads or writes, in one record: \<^verbatim>\<open>Mouse.coords\<close>, the collaborators
  it uses (\<^verbatim>\<open>canvas\<close>, \<^verbatim>\<open>$canvas.offset()\<close>, \<^verbatim>\<open>world\<close>, \<^verbatim>\<open>App.physicsDelta\<close>,
  the calls made on the rendering \<^verbatim>\<open>context\<close>, the events triggered on the document, the
  console), and the closure variables of \<^verbatim>\<open>Mouse.Scroll\<close>. The field \<open>mousedown\<close> is the
  \<^verbatim>\<open>var mousedown\<close> declared inside \<^verbatim>\<open>enable\<close>, which only the press and release
  handlers bound there can see.
\<close>

record state =
  coords :: "real \<times> real"
  canvas_width :: real
  canvas_height :: real
  canvas_offset_left :: real
  canvas_offset_top :: real
  world_xOffset :: real
  world_yOffset :: real
  world_width :: real
  world_height :: real
  physicsDelta :: real
  THRESHOLD :: real
  MOVEAMOUNT :: real
  enabled :: bool
  hovered :: bool
  translating :: bool
  scrolled :: "real \<times> real"
  easing :: "real \<Rightarrow> real"
  mousedown :: bool
  context_translate :: "(real \<times> real) list"
  triggered :: "string list"
  bindings :: "binding list"
  console_error :: "string list option"
  prevented :: nat

definition sentinel :: "real \<times> real" where
  "sentinel = (- 9999, - 9999)"

section \<open>Hit test\<close>

text \<open>
  \<^verbatim>\<open>App.isHovered\<close>. \<^verbatim>\<open>world.getOffsets()\<close> belongs to the world object, which is not
  in the file; it is taken to return the current \<^verbatim>\<open>{x: xOffset, y: yOffset}\<close>.
\<close>

definition getOffsets :: "state \<Rightarrow> real \<times> real" where
  "getOffsets s = (world_xOffset s, world_yOffset s)"

definition isHovered :: "box \<Rightarrow> state \<Rightarrow> bool" where
  "isHovered obj s =
     (let offsets = getOffsets s;
          xPos = box_x obj - fst offsets;
          yPos = box_y obj - snd offsets
      in fst (coords s) > xPos \<and> fst (coords s) < xPos + box_width obj \<and>
         snd (coords s) > yPos \<and> snd (coords s) < yPos + box_height obj)"

section \<open>Easing functions\<close>

definition easings_THRESHOLD :: "real \<Rightarrow> real" where
  "easings_THRESHOLD val = 1"

definition easings_LINEAR :: "real \<Rightarrow> real" where
  "easings_LINEAR val = 1 - val"

definition easings_SMOOTH :: "real \<Rightarrow> real" where
  "easings_SMOOTH val = 0.5 - cos ((1 - val) * pi) / 2"

definition easings_EXPONENTIAL :: "real \<Rightarrow> real" where
  "easings_EXPONENTIAL val = sqrt (1 - val)"

section \<open>The per-tick translate routine\<close>

text \<open>
  The four edge branches of \<^verbatim>\<open>translate\<close>. The routine is modelled with a trace: next to
  the new state it returns the list of the branches whose bodies ran, in order.
\<close>

datatype edge = Left | Right | Up | Down

definition translate_horizontal :: "state \<Rightarrow> edge list \<times> state" where
  "translate_horizontal s =
     (if fst (coords s) < canvas_width s * THRESHOLD s then
        let gradient = easing s (fst (coords s) / (canvas_width s * THRESHOLD s));
            ma = Math_round (gradient * min (world_xOffset s) (MOVEAMOUNT s * physicsDelta s))
        in ([Left],
            s\<lparr>world_xOffset := world_xOffset s - ma,
              scrolled := (fst (scrolled s) - ma, snd (scrolled s)),
              context_translate := context_translate s @ [(ma, 0)]\<rparr>)
      else if fst (coords s) > canvas_width s * (1 - THRESHOLD s) then
        let gradient = easing s ((canvas_width s - fst (coords s)) / (canvas_width s * THRESHOLD s));
            ma = Math_round (gradient * min (world_width s - canvas_width s - world_xOffset s)
                                             (MOVEAMOUNT s * physicsDelta s))
        in ([Right],
            s\<lparr>world_xOffset := world_xOffset s + ma,
              scrolled := (fst (scrolled s) + ma, snd (scrolled s)),
              context_translate := context_translate s @ [(- ma, 0)]\<rparr>)
      else ([], s))"

definition translate_vertical :: "state \<Rightarrow> edge list \<times> state" where
  "translate_vertical s =
     (if snd (coords s) < canvas_height s * THRESHOLD s then
        let gradient = easing s (snd (coords s) / (canvas_height s * THRESHOLD s));
            ma = Math_round (gradient * min (world_yOffset s) (MOVEAMOUNT s * physicsDelta s))
        in ([Up],
            s\<lparr>world_yOffset := world_yOffset s - ma,
              scrolled := (fst (scrolled s), snd (scrolled s) - ma),
              context_translate := context_translate s @ [(0, ma)]\<rparr>)
      else if snd (coords s) > canvas_height s * (1 - THRESHOLD s) then
        let gradient = easing s ((canvas_height s - snd (coords s)) / (canvas_height s * THRESHOLD s));
            ma = Math_round (gradient * min (world_height s - canvas_height s - world_yOffset s)
                                             (MOVEAMOUNT s * physicsDelta s))
        in ([Down],
            s\<lparr>world_yOffset := world_yOffset s + ma,
              scrolled := (fst (scrolled s), snd (scrolled s) + ma),
              context_translate := context_translate s @ [(0, - ma)]\<rparr>)
      else ([], s))"

text \<open>
  The end of \<^verbatim>\<open>translate\<close>: the flag is recomputed from \<^verbatim>\<open>scrolled\<close> and the
  notification is chosen against the flag's value on entry.
\<close>

definition translate_finish :: "bool \<Rightarrow> state \<Rightarrow> state" where
  "translate_finish initialTranslationState s =
     (let s1 = s\<lparr>translating := (fst (scrolled s) \<noteq> 0 \<and> snd (scrolled s) \<noteq> 0)\<rparr>
      in if \<not> initialTranslationState \<and> translating s1 then
           s1\<lparr>triggered := triggered s1 @ [''mousescrollon'']\<rparr>
         else if initialTranslationState \<and> \<not> translating s1 then
           s1\<lparr>triggered := triggered s1 @ [''mousescrolloff'']\<rparr>
         else s1)"

definition translate_traced :: "state \<Rightarrow> edge list \<times> state" where
  "translate_traced s =
     (let initialTranslationState = translating s;
          (tx, s1) = translate_horizontal s;
          (ty, s2) = translate_vertical s1
      in (tx @ ty, translate_finish initialTranslationState s2))"

definition translate :: "state \<Rightarrow> state" where
  "translate s = snd (translate_traced s)"

section \<open>Pointer tracking\<close>

text \<open>
  A movement event as \<^verbatim>\<open>trackmove\<close> reads it: its \<^verbatim>\<open>type\<close>, \<^verbatim>\<open>pageX\<close> and
  \<^verbatim>\<open>pageY\<close> (\<open>None\<close> when the property is undefined), and
  \<^verbatim>\<open>originalEvent.touches\<close>: the outer \<open>None\<close> is an undefined \<^verbatim>\<open>originalEvent\<close>, the
  inner one an undefined \<^verbatim>\<open>touches\<close>.
\<close>

record touch =
  touch_pageX :: real
  touch_pageY :: real

record event =
  ev_kind :: string
  pageX :: "real option"
  pageY :: "real option"
  originalEvent :: "touch list option option"

datatype js_error = TypeError string | ReferenceError string

fun error_text :: "js_error \<Rightarrow> string" where
  "error_text (TypeError m) = ''TypeError: '' @ m"
| "error_text (ReferenceError m) = ''ReferenceError: '' @ m"

text \<open>\<^verbatim>\<open>e.originalEvent.touches[0]\<close>: each step of the path raises when its base is undefined.\<close>

definition first_touch :: "event \<Rightarrow> js_error + touch" where
  "first_touch e =
     (case originalEvent e of
        None \<Rightarrow> Inl (TypeError ''Cannot read properties of undefined (reading touches)'')
      | Some None \<Rightarrow> Inl (TypeError ''Cannot read properties of undefined (reading 0)'')
      | Some (Some []) \<Rightarrow> Inl (TypeError ''Cannot read properties of undefined (reading pageX)'')
      | Some (Some (t # ts)) \<Rightarrow> Inr t)"

text \<open>
  \<^verbatim>\<open>e.pageX || e.originalEvent.touches[0].pageX\<close>: the left operand is taken when it is
  truthy, that is defined and not zero.
\<close>

definition cursor_x :: "event \<Rightarrow> js_error + real" where
  "cursor_x e =
     (case pageX e of
        Some v \<Rightarrow> if v \<noteq> 0 then Inr v else map_sum id touch_pageX (first_touch e)
      | None \<Rightarrow> map_sum id touch_pageX (first_touch e))"

definition cursor_y :: "event \<Rightarrow> js_error + real" where
  "cursor_y e =
     (case pageY e of
        Some v \<Rightarrow> if v \<noteq> 0 then Inr v else map_sum id touch_pageY (first_touch e)
      | None \<Rightarrow> map_sum id touch_pageY (first_touch e))"

text \<open>The body of the \<^verbatim>\<open>try\<close> block of \<^verbatim>\<open>trackmove\<close>.\<close>

definition trackmove_try :: "event \<Rightarrow> state \<Rightarrow> js_error + state" where
  "trackmove_try e s =
     (case cursor_x e of
        Inl ex \<Rightarrow> Inl ex
      | Inr x \<Rightarrow>
          (case cursor_y e of
             Inl ex \<Rightarrow> Inl ex
           | Inr y \<Rightarrow>
               let s1 = (if ev_kind e = ''touchmove'' then s\<lparr>prevented := Suc (prevented s)\<rparr> else s)
               in Inr (s1\<lparr>coords := (x - canvas_offset_left s1, y - canvas_offset_top s1)\<rparr>)))"

text \<open>
  \<^verbatim>\<open>trackmove\<close> with its \<^verbatim>\<open>catch\<close>: an exception of the body is logged when there is a
  console. The result is a sum, as for every handler; \<open>Inl\<close> would be an exception that
  leaves the handler.
\<close>

definition trackmove :: "event \<Rightarrow> state \<Rightarrow> js_error + state" where
  "trackmove e s =
     (case trackmove_try e s of
        Inr s' \<Rightarrow> Inr s'
      | Inl ex \<Rightarrow>
          (case console_error s of
             Some out \<Rightarrow>
               Inr (s\<lparr>console_error :=
                        Some (out @ [''Unable to track cursor location. '' @ error_text ex])\<rparr>)
           | None \<Rightarrow> Inr s))"

text \<open>The two functions given to \<^verbatim>\<open>$canvas.hover\<close>: pointer enters, pointer leaves.\<close>

definition hover_in :: "state \<Rightarrow> state" where
  "hover_in s =
     s\<lparr>bindings := bindings s @
          [\<lparr>ev_type = ''mousemove'', ev_namespace = ''coords'', ev_once = False,
            ev_handler = H_trackmove\<rparr>]\<rparr>"

definition hover_out :: "state \<Rightarrow> state" where
  "hover_out s =
     s\<lparr>bindings := filter (\<lambda>b. \<not> (ev_type b = ''mousemove'' \<and> ev_namespace b = ''coords''))
                           (bindings s),
       coords := (- 9999, - 9999)\<rparr>"

section \<open>Mouse.Scroll\<close>

text \<open>The handlers that \<^verbatim>\<open>enable\<close> binds, in the order of the source.\<close>

definition translate_first_move :: "state \<Rightarrow> state" where
  "translate_first_move s =
     (if fst (coords s) \<ge> 0 \<and> snd (coords s) \<ge> 0 then translate (s\<lparr>hovered := True\<rparr>) else s)"

definition translate_enter :: "state \<Rightarrow> state" where
  "translate_enter s = translate (s\<lparr>hovered := True\<rparr>)"

definition translate_leave :: "state \<Rightarrow> state" where
  "translate_leave s =
     (let s1 = s\<lparr>hovered := False\<rparr>
      in if translating s1 then
           s1\<lparr>translating := False, triggered := triggered s1 @ [''mousescrolloff'']\<rparr>
         else s1)"

definition translate_down :: "state \<Rightarrow> state" where
  "translate_down s = s\<lparr>mousedown := True\<rparr>"

definition translate_up :: "state \<Rightarrow> state" where
  "translate_up s = s\<lparr>mousedown := False\<rparr>"

definition translate_bindings :: "binding list" where
  "translate_bindings =
     [\<lparr>ev_type = ''mousemove'', ev_namespace = ''translate'', ev_once = True,
       ev_handler = H_translate_first_move\<rparr>,
      \<lparr>ev_type = ''mouseenter'', ev_namespace = ''translate'', ev_once = False,
       ev_handler = H_translate_enter\<rparr>,
      \<lparr>ev_type = ''touchstart'', ev_namespace = ''translate'', ev_once = False,
       ev_handler = H_translate_enter\<rparr>,
      \<lparr>ev_type = ''mouseleave'', ev_namespace = ''translate'', ev_once = False,
       ev_handler = H_translate_leave\<rparr>,
      \<lparr>ev_type = ''touchleave'', ev_namespace = ''translate'', ev_once = False,
       ev_handler = H_translate_leave\<rparr>,
      \<lparr>ev_type = ''mousedown'', ev_namespace = ''translate'', ev_once = False,
       ev_handler = H_translate_down\<rparr>,
      \<lparr>ev_type = ''touchstart'', ev_namespace = ''translate'', ev_once = False,
       ev_handler = H_translate_down\<rparr>,
      \<lparr>ev_type = ''mouseup'', ev_namespace = ''translate'', ev_once = False,
       ev_handler = H_translate_up\<rparr>,
      \<lparr>ev_type = ''touchend'', ev_namespace = ''translate'', ev_once = False,
       ev_handler = H_translate_up\<rparr>]"

text \<open>
  \<^verbatim>\<open>enable\<close>. Each call that gets past the guard runs \<^verbatim>\<open>var mousedown = false\<close>, a
  fresh variable for the handlers bound by that call.
\<close>

definition enable :: "state \<Rightarrow> state" where
  "enable s =
     (if enabled s then s
      else s\<lparr>enabled := True,
             bindings := bindings s @ translate_bindings,
             mousedown := False\<rparr>)"

definition disable :: "state \<Rightarrow> state" where
  "disable s =
     s\<lparr>bindings := filter (\<lambda>b. ev_namespace b \<noteq> ''translate'') (bindings s),
       hovered := False,
       enabled := False,
       translating := False\<rparr>"

definition isEnabled :: "state \<Rightarrow> bool" where
  "isEnabled s = enabled s"

definition isScrolling :: "state \<Rightarrow> bool" where
  "isScrolling s = translating s"

text \<open>
  \<^verbatim>\<open>_update\<close>, the per-tick entry point. Its body names \<^verbatim>\<open>mousedown\<close>, but the
  variable of that name is declared inside \<^verbatim>\<open>enable\<close> and is not in scope here: the
  scope chain of \<^verbatim>\<open>_update\<close> is its own body, the enclosing module function (which
  declares no \<^verbatim>\<open>mousedown\<close>) and the global object. The identifier therefore resolves to
  a global: the parameter \<open>global_mousedown\<close> is the truthiness of that global, \<open>None\<close>
  when no script defines one (the file defines none), in which case reading it raises a
  ReferenceError. \<^verbatim>\<open>&&\<close> evaluates its right operand only when \<^verbatim>\<open>hovered\<close> is true.
  The value returned is \<^verbatim>\<open>scrolled\<close> when \<^verbatim>\<open>translate\<close> ran and undefined otherwise.
\<close>

definition Scroll_update :: "bool option \<Rightarrow> state \<Rightarrow> js_error + (real \<times> real) option \<times> state" where
  "Scroll_update global_mousedown s =
     (if hovered s then
        (case global_mousedown of
           None \<Rightarrow> Inl (ReferenceError ''mousedown is not defined'')
         | Some md \<Rightarrow>
             if \<not> md then (let s' = translate s in Inr (Some (scrolled s'), s'))
             else Inr (None, s))
      else Inr (None, s))"

definition setEasingFunction :: "(real \<Rightarrow> real) \<Rightarrow> state \<Rightarrow> state" where
  "setEasingFunction e s = s\<lparr>easing := e\<rparr>"

definition setThreshold :: "real \<Rightarrow> state \<Rightarrow> state" where
  "setThreshold t s = s\<lparr>THRESHOLD := t\<rparr>"

definition setScrollDistance :: "real \<Rightarrow> state \<Rightarrow> state" where
  "setScrollDistance a s = s\<lparr>MOVEAMOUNT := a\<rparr>"

text \<open>
  The state when the file has been loaded: the initial values of its variables, around
  collaborators given as parameters (canvas size, world size and offsets, frame delta),
  with the canvas at the origin of the page and a console present.
\<close>

definition loaded :: "real \<Rightarrow> real \<Rightarrow> real \<Rightarrow> real \<Rightarrow> real \<Rightarrow> real \<Rightarrow> real \<Rightarrow> state" where
  "loaded cw ch ww wh xo yo delta =
     \<lparr>coords = (- 9999, - 9999),
      canvas_width = cw, canvas_height = ch,
      canvas_offset_left = 0, canvas_offset_top = 0,
      world_xOffset = xo, world_yOffset = yo,
      world_width = ww, world_height = wh,
      physicsDelta = delta,
      THRESHOLD = 0.2, MOVEAMOUNT = 350,
      enabled = False, hovered = False, translating = False,
      scrolled = (0, 0),
      easing = easings_SMOOTH,
      mousedown = False,
      context_translate = [],
      triggered = [],
      bindings = [],
      console_error = Some [],
      prevented = 0\<rparr>"

section \<open>Concrete states and events\<close>

text \<open>
  A canvas of 1000 by 1000 on a world of 3000 by 3000, frame delta one second, the scroller
  enabled and hovered with the \<^verbatim>\<open>LINEAR\<close> easing, the viewport at (500, 500).
\<close>

definition hovered_linear :: state where
  "hovered_linear =
     (setEasingFunction easings_LINEAR (enable (loaded 1000 1000 3000 3000 500 500 1)))
       \<lparr>hovered := True\<rparr>"

text \<open>The pointer in the left band only, and in the top left corner.\<close>

definition left_band_tick :: state where
  "left_band_tick = hovered_linear\<lparr>coords := (50, 500)\<rparr>"

definition corner_tick :: state where
  "corner_tick = hovered_linear\<lparr>coords := (50, 50)\<rparr>"

text \<open>After a tick in the corner the pointer goes to the middle of the canvas.\<close>

definition centre_after_corner :: state where
  "centre_after_corner = (translate corner_tick)\<lparr>coords := (500, 500)\<rparr>"

text \<open>The viewport six tenths of a pixel from the left edge of the world.\<close>

definition fractional_offset_tick :: state where
  "fractional_offset_tick =
     left_band_tick\<lparr>world_xOffset := 0.6, easing := easings_THRESHOLD\<rparr>"

text \<open>
  The state in which the handler of \<^verbatim>\<open>mouseenter.translate\<close> calls \<^verbatim>\<open>translate\<close>: the
  pointer has entered, no movement has been tracked yet, \<^verbatim>\<open>Mouse.coords\<close> is still
  (-9999, -9999).
\<close>

definition entering_tick :: state where
  "entering_tick = hovered_linear\<lparr>coords := (- 9999, - 9999), world_xOffset := 10\<rparr>"

text \<open>A negative scroll distance, the viewport at the right edge of the world.\<close>

definition negative_speed_tick :: state where
  "negative_speed_tick = setScrollDistance (- 350) (left_band_tick\<lparr>world_xOffset := 2000\<rparr>)"

text \<open>The viewport seven tenths of a pixel, and 100 pixels, from the left edge.\<close>

definition near_edge_tick :: state where
  "near_edge_tick = left_band_tick\<lparr>world_xOffset := 0.7\<rparr>"

definition hundred_tick :: state where
  "hundred_tick = left_band_tick\<lparr>world_xOffset := 100\<rparr>"

text \<open>The press handler has run while the pointer is in the left band.\<close>

definition pressed_tick :: state where
  "pressed_tick = translate_down left_band_tick"

text \<open>A touch event without touches, and a mouse movement at page position (150, 250).\<close>

definition no_touches_event :: event where
  "no_touches_event =
     \<lparr>ev_kind = ''touchmove'', pageX = None, pageY = None, originalEvent = Some (Some [])\<rparr>"

definition mouse_move_event :: event where
  "mouse_move_event =
     \<lparr>ev_kind = ''mousemove'', pageX = Some 150, pageY = Some 250, originalEvent = Some None\<rparr>"

definition crate :: box where
  "crate = \<lparr>box_x = 510, box_y = 520, box_width = 100, box_height = 80\<rparr>"

text \<open>A threshold of 0.6: in the middle of the canvas both edge tests of an axis hold.\<close>

definition wide_band_tick :: state where
  "wide_band_tick = setThreshold 0.6 (hovered_linear\<lparr>coords := (500, 500)\<rparr>)"

section \<open>Auxiliary facts\<close>

lemmas translate_unfold =
  translate_def translate_traced_def translate_horizontal_def translate_vertical_def
  translate_finish_def Math_round_def Let_def

lemmas example_unfold =
  hovered_linear_def setEasingFunction_def setThreshold_def setScrollDistance_def enable_def
  loaded_def translate_bindings_def easings_LINEAR_def easings_THRESHOLD_def

lemma Math_round_clamped:
  assumes g: "0 \<le> g" "g \<le> 1" and a: "a \<in> \<int>" "0 \<le> a" and b: "0 \<le> b"
  shows "0 \<le> Math_round (g * min a b) \<and> Math_round (g * min a b) \<le> a"
proof -
  from a obtain k :: int where k: "a = of_int k" by (auto elim: Ints_cases)
  have m: "0 \<le> min a b" "min a b \<le> a" using a b by auto
  have v0: "0 \<le> g * min a b" using g m by simp
  have v1: "g * min a b \<le> a"
    using mult_mono [of g 1 "min a b" a] g m a by simp
  have lo: "0 \<le> \<lfloor>g * min a b + 1 / 2\<rfloor>" using v0 by simp
  have "\<lfloor>g * min a b + 1 / 2\<rfloor> \<le> \<lfloor>of_int k + (1 / 2 :: real)\<rfloor>"
    using v1 k by (intro floor_mono) simp
  also have "\<dots> = k" by simp
  finally have hi: "\<lfloor>g * min a b + 1 / 2\<rfloor> \<le> k" .
  show ?thesis using lo hi k by (simp add: Math_round_def)
qed

text \<open>Inside either band of an axis the argument given to the easing lies in [0, 1].\<close>

lemma band_near:
  fixes m c T :: real
  assumes "0 \<le> m" "m < c * T"
  shows "0 \<le> m / (c * T) \<and> m / (c * T) \<le> 1"
  using assms by (simp add: divide_le_eq)

lemma band_far:
  fixes m c T :: real
  assumes "m \<le> c" "\<not> m < c * T" "m > c * (1 - T)"
  shows "0 \<le> (c - m) / (c * T) \<and> (c - m) / (c * T) \<le> 1"
proof -
  have lt: "c - m < c * T" using assms(3) by (simp add: algebra_simps)
  have ge: "0 \<le> c - m" using assms(1) by simp
  from lt ge have "0 < c * T" by linarith
  then show ?thesis using lt ge by (simp add: divide_le_eq)
qed

text \<open>What each axis leaves alone.\<close>

lemma translate_horizontal_frame:
  "coords (snd (translate_horizontal s)) = coords s \<and>
   canvas_height (snd (translate_horizontal s)) = canvas_height s \<and>
   THRESHOLD (snd (translate_horizontal s)) = THRESHOLD s \<and>
   easing (snd (translate_horizontal s)) = easing s \<and>
   world_yOffset (snd (translate_horizontal s)) = world_yOffset s \<and>
   world_height (snd (translate_horizontal s)) = world_height s \<and>
   MOVEAMOUNT (snd (translate_horizontal s)) = MOVEAMOUNT s \<and>
   physicsDelta (snd (translate_horizontal s)) = physicsDelta s"
  by (simp add: translate_horizontal_def Let_def)

lemma translate_xOffset:
  "world_xOffset (translate s) = world_xOffset (snd (translate_horizontal s))"
  by (simp add: translate_def translate_traced_def translate_vertical_def
      translate_finish_def Let_def case_prod_beta)

lemma translate_yOffset:
  "world_yOffset (translate s) =
   world_yOffset (snd (translate_vertical (snd (translate_horizontal s))))"
  by (simp add: translate_def translate_traced_def translate_finish_def Let_def case_prod_beta)

lemma translate_horizontal_bounds:
  assumes int: "world_xOffset s \<in> \<int>" "world_width s - canvas_width s \<in> \<int>"
    and rng: "0 \<le> world_xOffset s" "world_xOffset s \<le> world_width s - canvas_width s"
    and ptr: "0 \<le> fst (coords s)" "fst (coords s) \<le> canvas_width s"
    and spd: "0 \<le> MOVEAMOUNT s * physicsDelta s"
    and eas: "\<And>v. 0 \<le> v \<Longrightarrow> v \<le> 1 \<Longrightarrow> 0 \<le> easing s v \<and> easing s v \<le> 1"
  shows "0 \<le> world_xOffset (snd (translate_horizontal s)) \<and>
         world_xOffset (snd (translate_horizontal s)) \<le> world_width s - canvas_width s"
proof (cases "fst (coords s) < canvas_width s * THRESHOLD s")
  case True
  let ?g = "easing s (fst (coords s) / (canvas_width s * THRESHOLD s))"
  let ?ma = "Math_round (?g * min (world_xOffset s) (MOVEAMOUNT s * physicsDelta s))"
  have g: "0 \<le> ?g \<and> ?g \<le> 1" using band_near [OF ptr(1) True] eas by blast
  have ma: "0 \<le> ?ma \<and> ?ma \<le> world_xOffset s"
    using Math_round_clamped [of ?g "world_xOffset s" "MOVEAMOUNT s * physicsDelta s"]
      g int rng spd by blast
  have eq: "world_xOffset (snd (translate_horizontal s)) = world_xOffset s - ?ma"
    using True by (simp add: translate_horizontal_def Let_def)
  show ?thesis unfolding eq using ma rng by auto
next
  case False
  show ?thesis
  proof (cases "fst (coords s) > canvas_width s * (1 - THRESHOLD s)")
    case True
    let ?g = "easing s ((canvas_width s - fst (coords s)) / (canvas_width s * THRESHOLD s))"
    let ?room = "world_width s - canvas_width s - world_xOffset s"
    let ?ma = "Math_round (?g * min ?room (MOVEAMOUNT s * physicsDelta s))"
    have g: "0 \<le> ?g \<and> ?g \<le> 1" using band_far [OF ptr(2) False True] eas by blast
    have room: "?room \<in> \<int>" "0 \<le> ?room" using int rng by (auto intro: Ints_diff)
    have ma: "0 \<le> ?ma \<and> ?ma \<le> ?room"
      using Math_round_clamped [of ?g ?room "MOVEAMOUNT s * physicsDelta s"] g room spd
      by blast
    have eq: "world_xOffset (snd (translate_horizontal s)) = world_xOffset s + ?ma"
      using True False by (simp add: translate_horizontal_def Let_def)
    show ?thesis unfolding eq using ma rng by auto
  next
    case nowhere: False
    have eq: "world_xOffset (snd (translate_horizontal s)) = world_xOffset s"
      using False nowhere by (simp add: translate_horizontal_def)
    show ?thesis unfolding eq using rng by simp
  qed
qed

lemma translate_vertical_bounds:
  assumes int: "world_yOffset s \<in> \<int>" "world_height s - canvas_height s \<in> \<int>"
    and rng: "0 \<le> world_yOffset s" "world_yOffset s \<le> world_height s - canvas_height s"
    and ptr: "0 \<le> snd (coords s)" "snd (coords s) \<le> canvas_height s"
    and spd: "0 \<le> MOVEAMOUNT s * physicsDelta s"
    and eas: "\<And>v. 0 \<le> v \<Longrightarrow> v \<le> 1 \<Longrightarrow> 0 \<le> easing s v \<and> easing s v \<le> 1"
  shows "0 \<le> world_yOffset (snd (translate_vertical s)) \<and>
         world_yOffset (snd (translate_vertical s)) \<le> world_height s - canvas_height s"
proof (cases "snd (coords s) < canvas_height s * THRESHOLD s")
  case True
  let ?g = "easing s (snd (coords s) / (canvas_height s * THRESHOLD s))"
  let ?ma = "Math_round (?g * min (world_yOffset s) (MOVEAMOUNT s * physicsDelta s))"
  have g: "0 \<le> ?g \<and> ?g \<le> 1" using band_near [OF ptr(1) True] eas by blast
  have ma: "0 \<le> ?ma \<and> ?ma \<le> world_yOffset s"
    using Math_round_clamped [of ?g "world_yOffset s" "MOVEAMOUNT s * physicsDelta s"]
      g int rng spd by blast
  have eq: "world_yOffset (snd (translate_vertical s)) = world_yOffset s - ?ma"
    using True by (simp add: translate_vertical_def Let_def)
  show ?thesis unfolding eq using ma rng by auto
next
  case False
  show ?thesis
  proof (cases "snd (coords s) > canvas_height s * (1 - THRESHOLD s)")
    case True
    let ?g = "easing s ((canvas_height s - snd (coords s)) / (canvas_height s * THRESHOLD s))"
    let ?room = "world_height s - canvas_height s - world_yOffset s"
    let ?ma = "Math_round (?g * min ?room (MOVEAMOUNT s * physicsDelta s))"
    have g: "0 \<le> ?g \<and> ?g \<le> 1" using band_far [OF ptr(2) False True] eas by blast
    have room: "?room \<in> \<int>" "0 \<le> ?room" using int rng by (auto intro: Ints_diff)
    have ma: "0 \<le> ?ma \<and> ?ma \<le> ?room"
      using Math_round_clamped [of ?g ?room "MOVEAMOUNT s * physicsDelta s"] g room spd
      by blast
    have eq: "world_yOffset (snd (translate_vertical s)) = world_yOffset s + ?ma"
      using True False by (simp add: translate_vertical_def Let_def)
    show ?thesis unfolding eq using ma rng by auto
  next
    case nowhere: False
    have eq: "world_yOffset (snd (translate_vertical s)) = world_yOffset s"
      using False nowhere by (simp add: translate_vertical_def)
    show ?thesis unfolding eq using rng by simp
  qed
qed

text \<open>The trace of a tick: what each axis can contribute, and how the two are joined.\<close>

lemma translate_horizontal_trace:
  "fst (translate_horizontal s) = [] \<or> fst (translate_horizontal s) = [Left] \<or>
   fst (translate_horizontal s) = [Right]"
  by (simp add: translate_horizontal_def Let_def)

lemma translate_vertical_trace:
  "fst (translate_vertical s) = [] \<or> fst (translate_vertical s) = [Up] \<or>
   fst (translate_vertical s) = [Down]"
  by (simp add: translate_vertical_def Let_def)

lemma translate_traced_trace:
  "fst (translate_traced s) =
   fst (translate_horizontal s) @ fst (translate_vertical (snd (translate_horizontal s)))"
  by (simp add: translate_traced_def Let_def case_prod_beta)

text \<open>
  With a threshold above one half both edge tests of an axis hold in the middle of the
  canvas; the \<^verbatim>\<open>else if\<close> gives the tick to the first of them.
\<close>

lemma translate_both_tests_hold:
  "fst (coords wide_band_tick) < canvas_width wide_band_tick * THRESHOLD wide_band_tick \<and>
   fst (coords wide_band_tick) > canvas_width wide_band_tick * (1 - THRESHOLD wide_band_tick) \<and>
   fst (translate_traced wide_band_tick) = [Left, Up]"
  by (simp add: wide_band_tick_def example_unfold translate_unfold)

text \<open>
  The flag after a tick is a test of the running totals, and the press flag of
  \<^verbatim>\<open>enable\<close> has no part in a tick or in \<^verbatim>\<open>_update\<close>.
\<close>

lemma translate_flag_of_totals:
  "translating (translate s) \<longleftrightarrow>
     fst (scrolled (translate s)) \<noteq> 0 \<and> snd (scrolled (translate s)) \<noteq> 0"
  by (simp add: translate_def translate_traced_def translate_finish_def case_prod_beta Let_def)

lemma translate_horizontal_mousedown:
  "translate_horizontal (s\<lparr>mousedown := b\<rparr>) =
   (fst (translate_horizontal s), (snd (translate_horizontal s))\<lparr>mousedown := b\<rparr>)"
  by (simp add: translate_horizontal_def Let_def)

lemma translate_vertical_mousedown:
  "translate_vertical (s\<lparr>mousedown := b\<rparr>) =
   (fst (translate_vertical s), (snd (translate_vertical s))\<lparr>mousedown := b\<rparr>)"
  by (simp add: translate_vertical_def Let_def)

lemma translate_finish_mousedown:
  "translate_finish i (s\<lparr>mousedown := b\<rparr>) = (translate_finish i s)\<lparr>mousedown := b\<rparr>"
  by (simp add: translate_finish_def Let_def)

lemma translate_mousedown:
  "translate (s\<lparr>mousedown := b\<rparr>) = (translate s)\<lparr>mousedown := b\<rparr>"
  by (simp add: translate_def translate_traced_def case_prod_beta Let_def
      translate_horizontal_mousedown translate_vertical_mousedown translate_finish_mousedown)

lemma Scroll_update_blind_to_press:
  "Scroll_update g (s\<lparr>mousedown := b\<rparr>) =
   map_sum id (\<lambda>(r, t). (r, t\<lparr>mousedown := b\<rparr>)) (Scroll_update g s)"
  by (simp add: Scroll_update_def translate_mousedown Let_def split: option.splits)

section \<open>The claims\<close>

subsection \<open>C1: the translating flag\<close>

text \<open>
  Claim C1 says that after \<^verbatim>\<open>translate\<close> the flag \<^verbatim>\<open>translating\<close> is true exactly when
  at least one axis moved in that tick. The source computes
  \<^verbatim>\<open>scrolled.x !== 0 && scrolled.y !== 0\<close>, over totals that are never reset. Two ticks
  show the difference. With the pointer in the left band only, the viewport moves 263
  pixels to the left, the flag stays false and no notification is triggered. After a
  tick in the corner, a tick with the pointer in the middle of the canvas runs no branch
  and moves nothing, yet the flag stays true and no stop notification is triggered.
\<close>

theorem translate_flag_ignores_single_axis:
  "fst (translate_traced left_band_tick) = [Left] \<and>
   world_xOffset (translate left_band_tick) = world_xOffset left_band_tick - 263 \<and>
   world_yOffset (translate left_band_tick) = world_yOffset left_band_tick \<and>
   translating (translate left_band_tick) = False \<and>
   triggered (translate left_band_tick) = [] \<and>
   translating centre_after_corner = True \<and>
   fst (translate_traced centre_after_corner) = [] \<and>
   world_xOffset (translate centre_after_corner) = world_xOffset centre_after_corner \<and>
   world_yOffset (translate centre_after_corner) = world_yOffset centre_after_corner \<and>
   translating (translate centre_after_corner) = True \<and>
   triggered (translate centre_after_corner) = [''mousescrollon'']"
  by (simp add: centre_after_corner_def corner_tick_def left_band_tick_def example_unfold translate_unfold)


subsection \<open>C2: the offsets stay inside the world\<close>

text \<open>
  Claim C2 says that \<^verbatim>\<open>translate\<close> keeps both offsets between 0 and world size minus
  canvas size whenever they start there and the easing maps [0, 1] into [0, 1]. As stated
  this fails in three ways, each with offsets that start in range and an easing that maps
  [0, 1] into [0, 1]: an offset of 0.6 is rounded past the edge (to -0.4); with the pointer
  at (-9999, -9999), as it is when \<^verbatim>\<open>mouseenter\<close> calls the routine, the \<^verbatim>\<open>LINEAR\<close>
  easing is applied outside [0, 1] and the offset goes from 10 to -500; with a negative
  scroll distance the viewport at the right edge (2000) moves on to 2262.
\<close>

theorem translate_bounds_counterexample:
  "easing fractional_offset_tick = easings_THRESHOLD \<and>
   0 \<le> world_xOffset fractional_offset_tick \<and>
   world_xOffset fractional_offset_tick \<le> world_width fractional_offset_tick - canvas_width fractional_offset_tick \<and>
   0 \<le> world_yOffset fractional_offset_tick \<and>
   world_yOffset fractional_offset_tick \<le> world_height fractional_offset_tick - canvas_height fractional_offset_tick \<and>
   world_xOffset (translate fractional_offset_tick) = - 0.4 \<and>
   easing entering_tick = easings_LINEAR \<and>
   0 \<le> world_xOffset entering_tick \<and>
   world_xOffset entering_tick \<le> world_width entering_tick - canvas_width entering_tick \<and>
   0 \<le> world_yOffset entering_tick \<and>
   world_yOffset entering_tick \<le> world_height entering_tick - canvas_height entering_tick \<and>
   world_xOffset (translate entering_tick) = - 500 \<and>
   easing negative_speed_tick = easings_LINEAR \<and>
   0 \<le> world_xOffset negative_speed_tick \<and>
   world_xOffset negative_speed_tick \<le> world_width negative_speed_tick - canvas_width negative_speed_tick \<and>
   0 \<le> world_yOffset negative_speed_tick \<and>
   world_yOffset negative_speed_tick \<le> world_height negative_speed_tick - canvas_height negative_speed_tick \<and>
   world_xOffset (translate negative_speed_tick) = 2262"
  by (simp add: fractional_offset_tick_def entering_tick_def negative_speed_tick_def left_band_tick_def example_unfold translate_unfold)


text \<open>
  Claim C2 as amended: if the offsets and the two scrollable extents (world size minus
  canvas size) are whole numbers, the offsets start in range, the pointer lies on the
  canvas, scroll distance times frame delta is not negative, and the easing maps [0, 1]
  into [0, 1], then both offsets are still in range after \<^verbatim>\<open>translate\<close>.
\<close>

theorem translate_keeps_offsets_in_bounds:
  assumes whole: "world_xOffset s \<in> \<int>" "world_yOffset s \<in> \<int>"
      "world_width s - canvas_width s \<in> \<int>" "world_height s - canvas_height s \<in> \<int>"
    and xrange: "0 \<le> world_xOffset s" "world_xOffset s \<le> world_width s - canvas_width s"
    and yrange: "0 \<le> world_yOffset s" "world_yOffset s \<le> world_height s - canvas_height s"
    and on_surface: "0 \<le> fst (coords s)" "fst (coords s) \<le> canvas_width s"
      "0 \<le> snd (coords s)" "snd (coords s) \<le> canvas_height s"
    and speed: "0 \<le> MOVEAMOUNT s * physicsDelta s"
    and eas: "\<forall>v. 0 \<le> v \<and> v \<le> 1 \<longrightarrow> 0 \<le> easing s v \<and> easing s v \<le> 1"
  shows "0 \<le> world_xOffset (translate s) \<and>
         world_xOffset (translate s) \<le> world_width s - canvas_width s \<and>
         0 \<le> world_yOffset (translate s) \<and>
         world_yOffset (translate s) \<le> world_height s - canvas_height s"
proof -
  let ?s1 = "snd (translate_horizontal s)"
  have e: "\<And>v. 0 \<le> v \<Longrightarrow> v \<le> 1 \<Longrightarrow> 0 \<le> easing s v \<and> easing s v \<le> 1"
    using eas by blast
  have x: "0 \<le> world_xOffset ?s1 \<and> world_xOffset ?s1 \<le> world_width s - canvas_width s"
    using translate_horizontal_bounds [OF whole(1) whole(3) xrange on_surface(1,2) speed e] .
  have fr: "coords ?s1 = coords s" "canvas_height ?s1 = canvas_height s"
      "THRESHOLD ?s1 = THRESHOLD s" "easing ?s1 = easing s"
      "world_yOffset ?s1 = world_yOffset s" "world_height ?s1 = world_height s"
      "MOVEAMOUNT ?s1 = MOVEAMOUNT s" "physicsDelta ?s1 = physicsDelta s"
    using translate_horizontal_frame [of s] by simp_all
  have y: "0 \<le> world_yOffset (snd (translate_vertical ?s1)) \<and>
           world_yOffset (snd (translate_vertical ?s1)) \<le> world_height ?s1 - canvas_height ?s1"
    by (rule translate_vertical_bounds) (use fr whole yrange on_surface speed e in simp_all)
  show ?thesis
    using x y fr by (simp add: translate_xOffset translate_yOffset)
qed


text \<open>The amended claim C2 at work: a tick in the top left corner, from (500, 500).\<close>

theorem translate_keeps_offsets_in_bounds_witness:
  "world_xOffset corner_tick = 500 \<and> world_yOffset corner_tick = 500 \<and>
   world_xOffset (translate corner_tick) = 237 \<and>
   0 \<le> world_xOffset (translate corner_tick) \<and>
   world_xOffset (translate corner_tick) \<le> world_width corner_tick - canvas_width corner_tick \<and>
   0 \<le> world_yOffset (translate corner_tick) \<and>
   world_yOffset (translate corner_tick) \<le> world_height corner_tick - canvas_height corner_tick"
proof -
  have bounds: "0 \<le> world_xOffset (translate corner_tick) \<and>
         world_xOffset (translate corner_tick) \<le> world_width corner_tick - canvas_width corner_tick \<and>
         0 \<le> world_yOffset (translate corner_tick) \<and>
         world_yOffset (translate corner_tick) \<le> world_height corner_tick - canvas_height corner_tick"
    by (rule translate_keeps_offsets_in_bounds)
       (simp_all add: corner_tick_def example_unfold)
  have vals: "world_xOffset corner_tick = 500 \<and> world_yOffset corner_tick = 500 \<and>
      world_xOffset (translate corner_tick) = 237"
    by (simp add: corner_tick_def example_unfold translate_unfold)
  show ?thesis using bounds vals by simp
qed


subsection \<open>C3: the hit test\<close>

text \<open>
  Claim C3: for every box and every pair of offsets, \<^verbatim>\<open>App.isHovered\<close> is true exactly
  when the pointer lies strictly inside the box moved to canvas coordinates, that is in
  the open interval from \<open>x - xOffset\<close> to \<open>x - xOffset + width\<close> horizontally and in the
  open interval from \<open>y - yOffset\<close> to \<open>y - yOffset + height\<close> vertically; on an edge or
  outside it is false.
\<close>

theorem isHovered_strictly_inside:
  "isHovered obj s \<longleftrightarrow>
     fst (coords s) \<in> {box_x obj - world_xOffset s <..< box_x obj - world_xOffset s + box_width obj} \<and>
     snd (coords s) \<in> {box_y obj - world_yOffset s <..< box_y obj - world_yOffset s + box_height obj}"
  by (auto simp add: isHovered_def getOffsets_def Let_def)


subsection \<open>C4: the linear example\<close>

text \<open>
  Claim C4: with threshold 0.2, canvas width 1000, pointer x = 50, the \<^verbatim>\<open>LINEAR\<close>
  easing, scroll distance 350 and frame delta 1, an offset of at least 350 decreases by
  exactly 263, and a smaller offset never goes below 0. The second half fails for an
  offset that is not a whole number: 0.7 becomes -0.3.
\<close>

theorem translate_linear_left_band_counterexample:
  "THRESHOLD near_edge_tick = 0.2 \<and> canvas_width near_edge_tick = 1000 \<and>
   fst (coords near_edge_tick) = 50 \<and> easing near_edge_tick = easings_LINEAR \<and>
   MOVEAMOUNT near_edge_tick = 350 \<and> physicsDelta near_edge_tick = 1 \<and>
   world_xOffset near_edge_tick = 0.7 \<and>
   world_xOffset (translate near_edge_tick) = - 0.3"
  by (simp add: near_edge_tick_def left_band_tick_def example_unfold translate_unfold)


text \<open>
  Claim C4 as amended: in the same configuration an offset of at least 350 decreases by
  exactly 263; a whole-number offset from 0 up to 350 decreases by
  \<open>round (0.75 * xOffset)\<close> and does not go below 0.
\<close>

theorem translate_linear_left_band:
  assumes thr: "THRESHOLD s = 0.2" and cfg: "canvas_width s = 1000" "fst (coords s) = 50"
    "easing s = easings_LINEAR" "MOVEAMOUNT s = 350" "physicsDelta s = 1"
  shows "(350 \<le> world_xOffset s \<longrightarrow> world_xOffset (translate s) = world_xOffset s - 263) \<and>
         (world_xOffset s \<in> \<int> \<and> 0 \<le> world_xOffset s \<and> world_xOffset s < 350 \<longrightarrow>
            world_xOffset (translate s) = world_xOffset s - Math_round (0.75 * world_xOffset s) \<and>
            0 \<le> world_xOffset (translate s))"
proof -
  have T: "THRESHOLD s = 1 / 5" using thr by simp
  have eq: "world_xOffset (translate s) =
      world_xOffset s - Math_round (0.75 * min (world_xOffset s) 350)"
    by (simp add: translate_xOffset translate_horizontal_def Let_def T cfg easings_LINEAR_def)
  have big: "350 \<le> world_xOffset s \<longrightarrow> world_xOffset (translate s) = world_xOffset s - 263"
    unfolding eq by (simp add: Math_round_def min_def)
  have small: "world_xOffset s \<in> \<int> \<and> 0 \<le> world_xOffset s \<and> world_xOffset s < 350 \<longrightarrow>
            world_xOffset (translate s) = world_xOffset s - Math_round (0.75 * world_xOffset s) \<and>
            0 \<le> world_xOffset (translate s)"
  proof
    assume h: "world_xOffset s \<in> \<int> \<and> 0 \<le> world_xOffset s \<and> world_xOffset s < 350"
    then have m: "min (world_xOffset s) 350 = world_xOffset s" by simp
    have "Math_round (0.75 * min (world_xOffset s) 350) \<le> world_xOffset s"
      using Math_round_clamped [of "0.75" "world_xOffset s" 350] h by simp
    then show "world_xOffset (translate s) = world_xOffset s - Math_round (0.75 * world_xOffset s) \<and>
            0 \<le> world_xOffset (translate s)"
      unfolding eq m by simp
  qed
  show ?thesis using big small by blast
qed


text \<open>The amended claim C4 at offsets 500 and 100.\<close>

theorem translate_linear_left_band_witness:
  "world_xOffset (translate left_band_tick) = 237 \<and> world_xOffset (translate hundred_tick) = 25"
proof -
  have a: "350 \<le> world_xOffset left_band_tick \<longrightarrow>
      world_xOffset (translate left_band_tick) = world_xOffset left_band_tick - 263"
    using translate_linear_left_band [of left_band_tick]
    by (simp add: left_band_tick_def example_unfold)
  have b: "world_xOffset hundred_tick \<in> \<int> \<and> 0 \<le> world_xOffset hundred_tick \<and> world_xOffset hundred_tick < 350 \<longrightarrow>
      world_xOffset (translate hundred_tick) = world_xOffset hundred_tick - Math_round (0.75 * world_xOffset hundred_tick) \<and> 0 \<le> world_xOffset (translate hundred_tick)"
    using translate_linear_left_band [of hundred_tick]
    by (simp add: hundred_tick_def left_band_tick_def example_unfold)
  have va: "world_xOffset left_band_tick = 500" by (simp add: left_band_tick_def example_unfold)
  have vb: "world_xOffset hundred_tick = 100" by (simp add: hundred_tick_def left_band_tick_def example_unfold)
  show ?thesis using a b va vb by (simp add: Math_round_def)
qed


subsection \<open>C5: leaving the canvas\<close>

text \<open>
  Claim C5: when the pointer leaves the canvas \<^verbatim>\<open>Mouse.coords\<close> is reset to
  (-9999, -9999), and with the pointer there the hit test is false for every box whose
  bounds in canvas coordinates are not negative.
\<close>

theorem hover_out_resets_pointer:
  "coords (hover_out s) = sentinel \<and>
   (coords s' = sentinel \<and>
    0 \<le> box_x obj - world_xOffset s' \<and> 0 \<le> box_y obj - world_yOffset s' \<and>
    0 \<le> box_x obj - world_xOffset s' + box_width obj \<and>
    0 \<le> box_y obj - world_yOffset s' + box_height obj
    \<longrightarrow> \<not> isHovered obj s')"
  by (simp add: hover_out_def sentinel_def isHovered_def getOffsets_def Let_def)


text \<open>Claim C5 at a box drawn at (10, 20) on the canvas.\<close>

theorem hover_out_resets_pointer_witness:
  "coords (hover_out left_band_tick) = sentinel \<and>
   0 \<le> box_x crate - world_xOffset (hover_out left_band_tick) \<and>
   0 \<le> box_y crate - world_yOffset (hover_out left_band_tick) \<and>
   \<not> isHovered crate (hover_out left_band_tick)"
proof -
  have geom: "0 \<le> box_x crate - world_xOffset (hover_out left_band_tick) \<and>
      0 \<le> box_y crate - world_yOffset (hover_out left_band_tick) \<and>
      0 \<le> box_x crate - world_xOffset (hover_out left_band_tick) + box_width crate \<and>
      0 \<le> box_y crate - world_yOffset (hover_out left_band_tick) + box_height crate"
    by (simp add: crate_def hover_out_def left_band_tick_def example_unfold)
  show ?thesis
    using hover_out_resets_pointer [of left_band_tick "hover_out left_band_tick" crate] geom
    by simp
qed


subsection \<open>C6: updates while a press is held\<close>

text \<open>
  Claim C6 says that while the press handler's flag is set, \<^verbatim>\<open>_update\<close> does nothing.
  The flag is a variable of \<^verbatim>\<open>enable\<close>, and \<^verbatim>\<open>_update\<close> does not see it. With the
  scroller hovered and the press handler run: when no global \<^verbatim>\<open>mousedown\<close> exists the
  update raises a ReferenceError, and when a global of that name is false the update
  scrolls 263 pixels although the press is held.
\<close>

theorem Scroll_update_ignores_press:
  "hovered pressed_tick \<and> mousedown pressed_tick \<and>
   Scroll_update None pressed_tick = Inl (ReferenceError ''mousedown is not defined'') \<and>
   Scroll_update (Some False) pressed_tick = Inr (Some (- 263, 0), translate pressed_tick) \<and>
   world_xOffset pressed_tick = 500 \<and>
   world_xOffset (translate pressed_tick) = 237"
  by (simp add: Scroll_update_def pressed_tick_def translate_down_def left_band_tick_def
      example_unfold translate_unfold)


subsection \<open>C7: events that cannot be read\<close>

text \<open>
  Claim C7: when reading the coordinates of a movement event raises, the exception does
  not leave \<^verbatim>\<open>trackmove\<close>, \<^verbatim>\<open>Mouse.coords\<close> is unchanged, the handlers stay bound, and
  a later event whose coordinates can be read is tracked as usual.
\<close>

theorem trackmove_discards_unreadable_event:
  assumes "cursor_x e = Inl ex \<or> cursor_y e = Inl ex"
  shows "\<exists>s'. trackmove e s = Inr s' \<and> coords s' = coords s \<and> bindings s' = bindings s \<and>
           (\<forall>e2 x y. cursor_x e2 = Inr x \<and> cursor_y e2 = Inr y \<longrightarrow>
              (\<exists>s''. trackmove e2 s' = Inr s'' \<and>
                 coords s'' = (x - canvas_offset_left s, y - canvas_offset_top s) \<and>
                 bindings s'' = bindings s))"
proof -
  have "\<exists>ex'. trackmove_try e s = Inl ex'"
  proof (cases "cursor_x e")
    case (Inl a)
    then show ?thesis by (simp add: trackmove_try_def)
  next
    case (Inr x)
    with assms have "cursor_y e = Inl ex" by simp
    with Inr show ?thesis by (simp add: trackmove_try_def)
  qed
  then obtain ex' where fail: "trackmove_try e s = Inl ex'" ..
  define s' where "s' = (case console_error s of
       Some out \<Rightarrow> s\<lparr>console_error := Some (out @ [''Unable to track cursor location. '' @ error_text ex'])\<rparr>
     | None \<Rightarrow> s)"
  have r: "trackmove e s = Inr s'"
    using fail by (simp add: trackmove_def s'_def split: option.splits)
  have same: "coords s' = coords s" "bindings s' = bindings s"
    "canvas_offset_left s' = canvas_offset_left s" "canvas_offset_top s' = canvas_offset_top s"
    by (simp_all add: s'_def split: option.splits)
  have later: "\<exists>s''. trackmove e2 s' = Inr s'' \<and>
                 coords s'' = (x - canvas_offset_left s, y - canvas_offset_top s) \<and>
                 bindings s'' = bindings s"
    if "cursor_x e2 = Inr x \<and> cursor_y e2 = Inr y" for e2 x y
    using that same by (simp add: trackmove_def trackmove_try_def Let_def)
  show ?thesis using r same later by blast
qed


text \<open>Claim C7 at a touch event without touches, followed by a mouse movement.\<close>

theorem trackmove_discards_unreadable_event_witness:
  "cursor_x no_touches_event = Inl (TypeError ''Cannot read properties of undefined (reading pageX)'') \<and>
   (\<exists>s'. trackmove no_touches_event left_band_tick = Inr s' \<and> coords s' = (50, 500) \<and>
      (\<exists>s''. trackmove mouse_move_event s' = Inr s'' \<and> coords s'' = (150, 250)))"
proof -
  have bad: "cursor_x no_touches_event = Inl (TypeError ''Cannot read properties of undefined (reading pageX)'')"
    by (simp add: cursor_x_def first_touch_def no_touches_event_def)
  have good: "cursor_x mouse_move_event = Inr 150 \<and> cursor_y mouse_move_event = Inr 250"
    by (simp add: cursor_x_def cursor_y_def mouse_move_event_def)
  have c: "coords left_band_tick = (50, 500)" "canvas_offset_left left_band_tick = 0"
    "canvas_offset_top left_band_tick = 0"
    by (simp_all add: left_band_tick_def example_unfold)
  from trackmove_discards_unreadable_event [of no_touches_event _ left_band_tick] bad
  obtain s' where s': "trackmove no_touches_event left_band_tick = Inr s'" "coords s' = coords left_band_tick"
    "\<forall>e2 x y. cursor_x e2 = Inr x \<and> cursor_y e2 = Inr y \<longrightarrow>
              (\<exists>s''. trackmove e2 s' = Inr s'' \<and>
                 coords s'' = (x - canvas_offset_left left_band_tick, y - canvas_offset_top left_band_tick) \<and>
                 bindings s'' = bindings left_band_tick)"
    by blast
  from s'(3) good obtain s'' where t2: "trackmove mouse_move_event s' = Inr s''"
    and c2: "coords s'' = (150 - canvas_offset_left left_band_tick, 250 - canvas_offset_top left_band_tick)"
    by blast
  have after: "coords s'' = (150, 250)" using c2 c by simp
  have before: "coords s' = (50, 500)" using s'(2) c by simp
  show ?thesis using bad s'(1) before t2 after by blast
qed


subsection \<open>C8: one edge per axis\<close>

text \<open>
  Claim C8: in one run of \<^verbatim>\<open>translate\<close> at most one of the left and right branches
  runs, and at most one of the up and down branches, whatever the pointer position.
\<close>

theorem translate_one_edge_per_axis:
  "length (filter (\<lambda>e. e = Left \<or> e = Right) (fst (translate_traced s))) \<le> 1 \<and>
   length (filter (\<lambda>e. e = Up \<or> e = Down) (fst (translate_traced s))) \<le> 1"
proof -
  let ?h = "fst (translate_horizontal s)"
  let ?v = "fst (translate_vertical (snd (translate_horizontal s)))"
  have h: "?h = [] \<or> ?h = [Left] \<or> ?h = [Right]" by (rule translate_horizontal_trace)
  have v: "?v = [] \<or> ?v = [Up] \<or> ?v = [Down]" by (rule translate_vertical_trace)
  have hh: "length (filter (\<lambda>e. e = Left \<or> e = Right) ?h) \<le> 1"
    "length (filter (\<lambda>e. e = Up \<or> e = Down) ?h) = 0"
    using h by auto
  have vv: "length (filter (\<lambda>e. e = Left \<or> e = Right) ?v) = 0"
    "length (filter (\<lambda>e. e = Up \<or> e = Down) ?v) \<le> 1"
    using v by auto
  show ?thesis
    unfolding translate_traced_trace filter_append length_append using hh vv by linarith
qed


subsection \<open>C9: the easing functions\<close>

text \<open>
  Claim C9: the four easing functions are functions of their argument alone, with the
  formulas 1, \<open>1 - val\<close>, \<open>0.5 - cos ((1 - val) * pi) / 2\<close> and \<open>sqrt (1 - val)\<close>, and
  each maps [0, 1] into [0, 1].
\<close>

theorem easings_formulas_and_range:
  "easings_THRESHOLD val = 1 \<and>
   easings_LINEAR val = 1 - val \<and>
   easings_SMOOTH val = 0.5 - cos ((1 - val) * pi) / 2 \<and>
   easings_EXPONENTIAL val = sqrt (1 - val) \<and>
   (0 \<le> val \<and> val \<le> 1 \<longrightarrow>
      0 \<le> easings_THRESHOLD val \<and> easings_THRESHOLD val \<le> 1 \<and>
      0 \<le> easings_LINEAR val \<and> easings_LINEAR val \<le> 1 \<and>
      0 \<le> easings_SMOOTH val \<and> easings_SMOOTH val \<le> 1 \<and>
      0 \<le> easings_EXPONENTIAL val \<and> easings_EXPONENTIAL val \<le> 1)"
proof -
  have c: "- 1 \<le> cos ((1 - val) * pi)" "cos ((1 - val) * pi) \<le> 1"
    by (rule cos_ge_minus_one, rule cos_le_one)
  have smooth: "0 \<le> easings_SMOOTH val \<and> easings_SMOOTH val \<le> 1"
    unfolding easings_SMOOTH_def using c by linarith
  have formula: "easings_SMOOTH val = 0.5 - cos ((1 - val) * pi) / 2"
    by (simp only: easings_SMOOTH_def)
  have rest: "easings_THRESHOLD val = 1 \<and> easings_LINEAR val = 1 - val \<and>
      easings_EXPONENTIAL val = sqrt (1 - val) \<and>
      (0 \<le> val \<and> val \<le> 1 \<longrightarrow>
        0 \<le> easings_THRESHOLD val \<and> easings_THRESHOLD val \<le> 1 \<and>
        0 \<le> easings_LINEAR val \<and> easings_LINEAR val \<le> 1 \<and>
        0 \<le> easings_EXPONENTIAL val \<and> easings_EXPONENTIAL val \<le> 1)"
    by (simp add: easings_THRESHOLD_def easings_LINEAR_def easings_EXPONENTIAL_def)
  show ?thesis using smooth formula rest by blast
qed


text \<open>Claim C9 at one half.\<close>

theorem easings_formulas_and_range_witness:
  "(0::real) \<le> 1 / 2 \<and> (1 / 2 ::real) \<le> 1 \<and>
   easings_THRESHOLD (1 / 2) = 1 \<and> easings_LINEAR (1 / 2) = 1 / 2 \<and>
   easings_SMOOTH (1 / 2) = 1 / 2 \<and>
   0 \<le> easings_EXPONENTIAL (1 / 2) \<and> easings_EXPONENTIAL (1 / 2) \<le> 1"
  using easings_formulas_and_range [of "1 / 2"] by simp


subsection \<open>C10: enabling twice\<close>

text \<open>
  Claim C10: \<^verbatim>\<open>enable\<close> on an enabled scroller changes nothing and binds no further
  handler, so enabling twice is the same as enabling once.
\<close>

theorem enable_idempotent:
  "(enabled s \<longrightarrow> enable s = s) \<and> enable (enable s) = enable s"
  by (simp add: enable_def)


text \<open>Claim C10 at an enabled scroller: the nine handlers stay nine.\<close>

theorem enable_idempotent_witness:
  "enabled left_band_tick \<and> enable left_band_tick = left_band_tick \<and>
   length (bindings (enable left_band_tick)) = 9"
proof -
  have e: "enabled left_band_tick" by (simp add: left_band_tick_def example_unfold)
  have n: "length (bindings left_band_tick) = 9" by (simp add: left_band_tick_def example_unfold)
  show ?thesis using enable_idempotent [of left_band_tick] e n by simp
qed

end
